theory Spec2Isabelle
  imports Main "HOL-Library.AList"
begin

section \<open>Wire data\<close>

text \<open>
  A JSON value, as \<^verbatim>\<open>json.Unmarshal\<close> stores it in an \<^verbatim>\<open>interface{}\<close>: \<^verbatim>\<open>nil\<close>,
  \<^verbatim>\<open>bool\<close>, a number, \<^verbatim>\<open>string\<close>, \<^verbatim>\<open>[]interface{}\<close> or \<^verbatim>\<open>map[string]interface{}\<close>.
  Numbers are integers here (the only numeric field of the protocol is a byte count), and
  an object is an association list read with \<open>map_of\<close>.
\<close>

datatype json =
    JNull
  | JBool bool
  | JNum int
  | JStr string
  | JArr "json list"
  | JObj "(string \<times> json) list"

text \<open>\<^verbatim>\<open>ClientInfo\<close> of the server; \<open>Conn\<close> is the identity of the \<^verbatim>\<open>*websocket.Conn\<close>.\<close>

record ClientInfo =
  ID :: string
  Conn :: nat
  Hostname :: string

record ClipboardUpdateData =
  Content :: string

record FileOfferData =
  Filename :: string
  Filesize :: int
  TargetID :: string

record FileAckData =
  AckFilename :: string
  Allow :: bool
  SourceID :: string

text \<open>
  The dynamic type of \<^verbatim>\<open>BaseMessage.Data\<close> (an \<^verbatim>\<open>interface{}\<close>). A message decoded from a frame
  carries \<open>Decoded\<close>: the generic value \<^verbatim>\<open>json.Unmarshal\<close> built. The other constructors are
  the Go structs a message is built from in the program. \<^verbatim>\<open>DeviceListData\<close> holds the
  \<open>(id, hostname)\<close> pairs: the \<^verbatim>\<open>Conn\<close> field is tagged \<^verbatim>\<open>json:"-"\<close>.
\<close>

datatype payload =
    Decoded json
  | ClipboardUpdate ClipboardUpdateData
  | ClipboardHistory "string list"
  | DeviceList "(string \<times> string) list"
  | FileOffer FileOfferData
  | FileAck FileAckData

record BaseMessage =
  Type :: string
  Data :: payload
  SenderID :: string

subsection \<open>\<^verbatim>\<open>RemarshalData\<close>: marshal the payload, unmarshal it into the target struct\<close>

definition marshal :: "payload \<Rightarrow> json" where
  "marshal p =
     (case p of
        Decoded j \<Rightarrow> j
      | ClipboardUpdate d \<Rightarrow> JObj [(''content'', JStr (Content d))]
      | ClipboardHistory h \<Rightarrow> JObj [(''history'', JArr (map JStr h))]
      | DeviceList ds \<Rightarrow>
          JObj [(''devices'',
                 JArr (map (\<lambda>d. JObj [(''id'', JStr (fst d)), (''hostname'', JStr (snd d))]) ds))]
      | FileOffer d \<Rightarrow>
          JObj ([(''filename'', JStr (Filename d)), (''filesize'', JNum (Filesize d))]
                @ (if TargetID d = [] then [] else [(''targetId'', JStr (TargetID d))]))
      | FileAck d \<Rightarrow>
          JObj [(''filename'', JStr (AckFilename d)), (''allow'', JBool (Allow d)),
                (''sourceId'', JStr (SourceID d))])"

text \<open>
  Reading one field of an object into a struct field: a missing key or \<^verbatim>\<open>null\<close> leaves the
  zero value, a value of another JSON type is an \<^verbatim>\<open>UnmarshalTypeError\<close> (\<open>None\<close>). Keys are
  compared as written.
\<close>

definition field_string :: "(string \<times> json) list \<Rightarrow> string \<Rightarrow> string option" where
  "field_string kvs k =
     (case map_of kvs k of
        None \<Rightarrow> Some []
      | Some JNull \<Rightarrow> Some []
      | Some (JStr s) \<Rightarrow> Some s
      | Some _ \<Rightarrow> None)"

definition field_bool :: "(string \<times> json) list \<Rightarrow> string \<Rightarrow> bool option" where
  "field_bool kvs k =
     (case map_of kvs k of
        None \<Rightarrow> Some False
      | Some JNull \<Rightarrow> Some False
      | Some (JBool b) \<Rightarrow> Some b
      | Some _ \<Rightarrow> None)"

definition field_int64 :: "(string \<times> json) list \<Rightarrow> string \<Rightarrow> int option" where
  "field_int64 kvs k =
     (case map_of kvs k of
        None \<Rightarrow> Some 0
      | Some JNull \<Rightarrow> Some 0
      | Some (JNum n) \<Rightarrow> (if - (2 ^ 63) \<le> n \<and> n < 2 ^ 63 then Some n else None)
      | Some _ \<Rightarrow> None)"

definition decode_ClipboardUpdateData :: "json \<Rightarrow> ClipboardUpdateData option" where
  "decode_ClipboardUpdateData j =
     (case j of
        JNull \<Rightarrow> Some \<lparr>Content = []\<rparr>
      | JObj kvs \<Rightarrow>
          (case field_string kvs ''content'' of
             None \<Rightarrow> None
           | Some c \<Rightarrow> Some \<lparr>Content = c\<rparr>)
      | _ \<Rightarrow> None)"

definition decode_FileOfferData :: "json \<Rightarrow> FileOfferData option" where
  "decode_FileOfferData j =
     (case j of
        JNull \<Rightarrow> Some \<lparr>Filename = [], Filesize = 0, TargetID = []\<rparr>
      | JObj kvs \<Rightarrow>
          (case (field_string kvs ''filename'', field_int64 kvs ''filesize'',
                 field_string kvs ''targetId'') of
             (Some f, Some n, Some t) \<Rightarrow> Some \<lparr>Filename = f, Filesize = n, TargetID = t\<rparr>
           | _ \<Rightarrow> None)
      | _ \<Rightarrow> None)"

definition decode_FileAckData :: "json \<Rightarrow> FileAckData option" where
  "decode_FileAckData j =
     (case j of
        JNull \<Rightarrow> Some \<lparr>AckFilename = [], Allow = False, SourceID = []\<rparr>
      | JObj kvs \<Rightarrow>
          (case (field_string kvs ''filename'', field_bool kvs ''allow'',
                 field_string kvs ''sourceId'') of
             (Some f, Some a, Some s) \<Rightarrow> Some \<lparr>AckFilename = f, Allow = a, SourceID = s\<rparr>
           | _ \<Rightarrow> None)
      | _ \<Rightarrow> None)"

definition RemarshalData_ClipboardUpdateData :: "payload \<Rightarrow> ClipboardUpdateData option" where
  "RemarshalData_ClipboardUpdateData p = decode_ClipboardUpdateData (marshal p)"

definition RemarshalData_FileOfferData :: "payload \<Rightarrow> FileOfferData option" where
  "RemarshalData_FileOfferData p = decode_FileOfferData (marshal p)"

definition RemarshalData_FileAckData :: "payload \<Rightarrow> FileAckData option" where
  "RemarshalData_FileAckData p = decode_FileAckData (marshal p)"

section \<open>The server\<close>

text \<open>
  The package-level variables of the server: the registry \<^verbatim>\<open>clients\<close> (a Go map, here an
  association list with one entry per key), \<^verbatim>\<open>currentClip\<close> and \<^verbatim>\<open>clipboardHistory\<close>.
  \<open>closed\<close> records the connection of every call \<^verbatim>\<open>close(client.Conn)\<close>, in order.
\<close>

record server_state =
  clients :: "(string \<times> ClientInfo) list"
  currentClip :: string
  clipboardHistory :: "string list"
  closed :: "nat list"

definition maxHistorySize :: nat where
  "maxHistorySize = 20"

text \<open>The state at start-up: the declarations of the variables, and \<^verbatim>\<open>main\<close>.\<close>

definition init_server :: server_state where
  "init_server = \<lparr>clients = [], currentClip = [], clipboardHistory = [], closed = []\<rparr>"

subsection \<open>\<^verbatim>\<open>runHub\<close>\<close>

text \<open>\<^verbatim>\<open>case client := <-register\<close>.\<close>

definition hub_register :: "ClientInfo \<Rightarrow> server_state \<Rightarrow> server_state" where
  "hub_register client st = st\<lparr>clients := AList.update (ID client) client (clients st)\<rparr>"

text \<open>\<^verbatim>\<open>case client := <-unregister\<close>.\<close>

definition hub_unregister :: "ClientInfo \<Rightarrow> server_state \<Rightarrow> server_state" where
  "hub_unregister client st =
     (case map_of (clients st) (ID client) of
        None \<Rightarrow> st
      | Some existingClient \<Rightarrow>
          if Conn existingClient = Conn client
          then st\<lparr>clients := AList.delete (ID client) (clients st),
                  closed := closed st @ [Conn client]\<rparr>
          else st)"

text \<open>
  \<^verbatim>\<open>case message := <-broadcast\<close>. \<open>activeClients\<close> is the snapshot of the registry (in the
  order of the association list; Go's iteration order is unspecified). \<open>targetted\<close> is the
  type switch on \<^verbatim>\<open>message.Data\<close>: only a value whose dynamic type is \<^verbatim>\<open>FileAckData\<close> or
  \<^verbatim>\<open>FileOfferData\<close> enters a case. \<open>skipped\<close> is true where the loop body reaches a
  \<^verbatim>\<open>continue\<close> before \<^verbatim>\<open>writeToClient\<close>.
\<close>

definition activeClients :: "server_state \<Rightarrow> ClientInfo list" where
  "activeClients st = map snd (clients st)"

definition targetted :: "BaseMessage \<Rightarrow> ClientInfo \<Rightarrow> bool" where
  "targetted message client =
     (case Data message of
        FileAck data \<Rightarrow> Type message = ''file_ack'' \<and> ID client \<noteq> SourceID data
      | FileOffer data \<Rightarrow>
          Type message = ''file_offer'' \<and>
          ((TargetID data \<noteq> [] \<and> ID client \<noteq> TargetID data) \<or> ID client = SenderID message)
      | _ \<Rightarrow> False)"

definition skipped :: "BaseMessage \<Rightarrow> ClientInfo \<Rightarrow> bool" where
  "skipped message client =
     (if Type message = ''clipboard_update'' \<and> ID client = SenderID message then True
      else targetted message client)"

text \<open>The clients \<^verbatim>\<open>writeToClient\<close> is called for, in the order of the loop.\<close>

definition deliveries :: "BaseMessage \<Rightarrow> ClientInfo list \<Rightarrow> ClientInfo list" where
  "deliveries message cs = filter (\<lambda>client. \<not> skipped message client) cs"

datatype hub_event = Register ClientInfo | Unregister ClientInfo | Broadcast BaseMessage

text \<open>
  One iteration of the hub's \<^verbatim>\<open>select\<close>. The result is the new state, the writes
  \<open>(connection, message)\<close> and the clients whose write failed (\<open>write_ok\<close> is the outcome of
  \<^verbatim>\<open>WriteMessage\<close> on a connection), for which a goroutine offers the client to
  \<^verbatim>\<open>unregister\<close>. \<^verbatim>\<open>broadcastDeviceListUpdate\<close>, called by the hub itself after a register or
  unregister, offers its message to the unbuffered \<^verbatim>\<open>broadcast\<close> channel without blocking;
  the hub is that channel's only receiver, so the offer takes the \<^verbatim>\<open>default\<close> branch and
  nothing is written. \<^verbatim>\<open>json.Marshal\<close> does not fail on a message with one of these
  payloads, so its error branch is left out.
\<close>

definition hub_step ::
  "(nat \<Rightarrow> bool) \<Rightarrow> hub_event \<Rightarrow> server_state \<Rightarrow>
     server_state \<times> (nat \<times> BaseMessage) list \<times> ClientInfo list" where
  "hub_step write_ok ev st =
     (case ev of
        Register client \<Rightarrow> (hub_register client st, [], [])
      | Unregister client \<Rightarrow> (hub_unregister client st, [], [])
      | Broadcast message \<Rightarrow>
          (let targets = deliveries message (activeClients st)
           in (st, map (\<lambda>client. (Conn client, message)) targets,
               filter (\<lambda>client. \<not> write_ok (Conn client)) targets)))"

subsection \<open>\<^verbatim>\<open>readLoop\<close>\<close>

text \<open>
  The body of \<^verbatim>\<open>case "clipboard_update"\<close> between \<^verbatim>\<open>clipboardLock.Lock()\<close> and
  \<^verbatim>\<open>Unlock()\<close>, which the specification calls \<open>setIfChanged\<close>: the new state and whether the
  value changed (the branch that sends to \<^verbatim>\<open>broadcast\<close>).
\<close>

definition setIfChanged :: "string \<Rightarrow> server_state \<Rightarrow> server_state \<times> bool" where
  "setIfChanged content st =
     (if currentClip st \<noteq> content
      then (let h = content # clipboardHistory st
            in (st\<lparr>currentClip := content,
                    clipboardHistory :=
                      (if length h > maxHistorySize then take maxHistorySize h else h)\<rparr>,
                True))
      else (st, False))"

text \<open>
  The \<^verbatim>\<open>deviceList\<close> built from the registry, by \<^verbatim>\<open>readLoop\<close> for a \<open>request_devices\<close> and by
  \<^verbatim>\<open>broadcastDeviceListUpdate\<close>: the id and hostname of every registered client.
\<close>

definition deviceList :: "server_state \<Rightarrow> (string \<times> string) list" where
  "deviceList st = map (\<lambda>c. (ID c, Hostname c)) (activeClients st)"

text \<open>
  One text frame that \<^verbatim>\<open>json.Unmarshal\<close> accepted as \<open>msg0\<close>, read from \<open>client\<close>. The result
  is the new state, the messages sent to the \<^verbatim>\<open>broadcast\<close> channel and the writes made to
  the client directly. The \<open>file_offer\<close> and \<open>file_ack\<close> cases decode the payload into a local
  variable and send \<open>msg\<close> itself, whose \<open>Data\<close> is what was read from the frame; the
  \<open>clipboard_update\<close> case builds a new message around the decoded struct.
\<close>

definition readLoop_text ::
  "ClientInfo \<Rightarrow> BaseMessage \<Rightarrow> server_state \<Rightarrow>
     server_state \<times> BaseMessage list \<times> (nat \<times> BaseMessage) list" where
  "readLoop_text client msg0 st =
     (let msg = msg0\<lparr>SenderID := ID client\<rparr>
      in if Type msg = ''clipboard_update'' then
           (case RemarshalData_ClipboardUpdateData (Data msg) of
              Some data \<Rightarrow>
                (case setIfChanged (Content data) st of
                   (st', changed) \<Rightarrow>
                     (st',
                      if changed
                      then [\<lparr>Type = ''clipboard_update'', Data = ClipboardUpdate data,
                             SenderID = ID client\<rparr>]
                      else [],
                      []))
            | None \<Rightarrow> (st, [], []))
         else if Type msg = ''request_devices'' then
           (st, [],
            [(Conn client,
              \<lparr>Type = ''device_list'', Data = DeviceList (deviceList st), SenderID = []\<rparr>)])
         else if Type msg = ''file_offer'' then
           (case RemarshalData_FileOfferData (Data msg) of
              Some data \<Rightarrow> (st, [msg], [])
            | None \<Rightarrow> (st, [], []))
         else if Type msg = ''file_ack'' then
           (case RemarshalData_FileAckData (Data msg) of
              Some data \<Rightarrow> (st, [msg], [])
            | None \<Rightarrow> (st, [], []))
         else (st, [], []))"

text \<open>
  A message relayed by the server: the frame is handled by \<open>readLoop_text\<close>, and the hub
  routes each message that reached the \<^verbatim>\<open>broadcast\<close> channel over the registry. The result
  lists, for each such message, the clients it is written to.
\<close>

definition relay :: "ClientInfo \<Rightarrow> BaseMessage \<Rightarrow> server_state \<Rightarrow> ClientInfo list list" where
  "relay client msg st =
     (case readLoop_text client msg st of
        (st', sent, direct) \<Rightarrow> map (\<lambda>m. deliveries m (activeClients st')) sent)"

subsection \<open>\<^verbatim>\<open>handleConnections\<close>\<close>

text \<open>\<^verbatim>\<open>r.URL.Query().Get\<close>: the value of a query parameter, the empty string when it is absent.\<close>

definition query_Get :: "string option \<Rightarrow> string" where
  "query_Get q = (case q of None \<Rightarrow> [] | Some v \<Rightarrow> v)"

datatype admission = Forbidden | UpgradeError | Admitted ClientInfo

text \<open>
  \<^verbatim>\<open>handleConnections\<close> up to the call of \<^verbatim>\<open>readLoop\<close>. \<open>key\<close> is the configured \<^verbatim>\<open>apiKey\<close>,
  \<open>qkey\<close> and \<open>qhost\<close> the query parameters, \<open>upgrade\<close> the outcome of \<^verbatim>\<open>upgrader.Upgrade\<close>
  (\<open>None\<close> for an error) and \<open>uuid\<close> the value of \<^verbatim>\<open>uuid.NewString()\<close>. The result is the
  outcome, the state once the hub has taken the client from \<^verbatim>\<open>register\<close>, and the writes
  made to the new client, in order. Both reads of the store are taken from the one state.
\<close>

definition handleConnections ::
  "string \<Rightarrow> string option \<Rightarrow> string option \<Rightarrow> nat option \<Rightarrow> string \<Rightarrow> server_state \<Rightarrow>
     admission \<times> server_state \<times> (nat \<times> BaseMessage) list" where
  "handleConnections key qkey qhost upgrade uuid st =
     (if query_Get qkey \<noteq> key then (Forbidden, st, [])
      else
        (let hostname = (if query_Get qhost = [] then ''Unknown'' else query_Get qhost)
         in case upgrade of
              None \<Rightarrow> (UpgradeError, st, [])
            | Some ws \<Rightarrow>
                (let client = \<lparr>ID = uuid, Conn = ws, Hostname = hostname\<rparr>;
                     st1 = hub_register client st;
                     current = currentClip st1;
                     historyCopy = clipboardHistory st1
                 in (Admitted client, st1,
                     (if current \<noteq> []
                      then [(ws, \<lparr>Type = ''clipboard_update'',
                                  Data = ClipboardUpdate \<lparr>Content = current\<rparr>, SenderID = []\<rparr>)]
                      else [])
                     @ (if length historyCopy > 0
                        then [(ws, \<lparr>Type = ''clipboard_history'',
                                    Data = ClipboardHistory historyCopy, SenderID = []\<rparr>)]
                        else [])))))"

text \<open>A run of the hub over a list of events, and of \<open>readLoop_text\<close> over a list of frames.\<close>

fun hub_run :: "hub_event list \<Rightarrow> server_state \<Rightarrow> server_state" where
  "hub_run [] st = st"
| "hub_run (ev # evs) st = hub_run evs (fst (hub_step (\<lambda>c. True) ev st))"

fun readLoop_run :: "(ClientInfo \<times> BaseMessage) list \<Rightarrow> server_state \<Rightarrow> server_state" where
  "readLoop_run [] st = st"
| "readLoop_run (f # fs) st = readLoop_run fs (fst (readLoop_text (fst f) (snd f) st))"

section \<open>The client\<close>

text \<open>
  The model of \<^verbatim>\<open>Update\<close> keeps the configuration and the state fields of \<^verbatim>\<open>Model\<close>; of the
  user-interface components it keeps the items of the history list (\<open>histList\<close>) and of the
  device list (\<open>devList\<close>). Sizes, the spinner, the help and the log view are left out, and
  \<^verbatim>\<open>logf\<close> with them. \<open>wsConn\<close> and \<open>wsCtxCancel\<close> are \<open>None\<close> for \<^verbatim>\<open>nil\<close>.
\<close>

datatype ConnectionState = Connecting | Connected | Disconnected

record Model =
  serverURL :: string
  apiKey :: string
  hostname :: string
  connectedState :: ConnectionState
  syncEnabled :: bool
  lastError :: "string option"
  wsConn :: "nat option"
  wsCtxCancel :: "nat option"
  lastSentClip :: string
  lastRcvdClip :: string
  focus :: int
  histList :: "string list"
  devList :: "(string \<times> string) list"
  incomingFileOffer :: "FileOfferData option"
  offeringClientID :: string
  devicesMap :: "(string \<times> string) list"

datatype key =
  Quit | ToggleSync | FocusNext | FocusPrev | AcceptFile | RejectFile | InitiateXfer | OtherKey

text \<open>
  The messages of the program. \<open>ConnectionStatusMsg\<close> carries \<^verbatim>\<open>Status\<close>, \<^verbatim>\<open>Err\<close>, \<^verbatim>\<open>Conn\<close> and
  \<^verbatim>\<open>Cancel\<close>; \<open>LocalClipboardCheckedMsg\<close> carries \<^verbatim>\<open>Content\<close>, \<^verbatim>\<open>Changed\<close> and \<^verbatim>\<open>Err\<close>.
\<close>

datatype Msg =
    WindowSizeMsg
  | KeyMsg key
  | SpinnerTickMsg
  | ConnectionStatusMsg ConnectionState "string option" "nat option" "nat option"
  | ReceivedServerMsg BaseMessage
  | LocalClipboardCheckedMsg string bool "string option"
  | ErrorMsg string
  | LogMsg string
  | OtherMsg

text \<open>
  The commands \<^verbatim>\<open>Init\<close> and \<^verbatim>\<open>Update\<close> return. \<open>TickCheckCmd c\<close> is the \<^verbatim>\<open>tea.Tick\<close> of two seconds
  that runs \<^verbatim>\<open>checkLocalClipboardCmd(c)\<close>; \<open>ComponentCmd\<close> is whatever the focused list or
  viewport returns for a key.
\<close>

datatype Cmd =
    ConnectCmd string string string
  | ListenWebSocketCmd nat
  | CheckLocalClipboardCmd string
  | SendWebsocketMessageCmd "nat option" BaseMessage
  | WriteToClipboardCmd string
  | TickCheckCmd string
  | SpinnerCmd
  | ComponentCmd
  | QuitCmd

text \<open>What \<^verbatim>\<open>Update\<close> does at once, before it returns.\<close>

datatype effect = CancelCalled nat | CloseFrameWritten nat | ConnClosed nat

definition NewModel :: "string \<Rightarrow> string \<Rightarrow> string \<Rightarrow> Model" where
  "NewModel url k h =
     \<lparr>serverURL = url, apiKey = k, hostname = h, connectedState = Disconnected,
      syncEnabled = True, lastError = None, wsConn = None, wsCtxCancel = None,
      lastSentClip = [], lastRcvdClip = [], focus = 0, histList = [], devList = [],
      incomingFileOffer = None, offeringClientID = [], devicesMap = []\<rparr>"

definition Init :: "Model \<Rightarrow> Cmd list" where
  "Init m = [SpinnerCmd, ConnectCmd (serverURL m) (apiKey m) (hostname m)]"




subsection \<open>Decoding on the client\<close>

fun json_strings :: "json list \<Rightarrow> string list option" where
  "json_strings [] = Some []"
| "json_strings (j # js) =
     (case (case j of JNull \<Rightarrow> Some [] | JStr s \<Rightarrow> Some s | _ \<Rightarrow> None) of
        None \<Rightarrow> None
      | Some s \<Rightarrow> (case json_strings js of None \<Rightarrow> None | Some ss \<Rightarrow> Some (s # ss)))"

definition decode_ClipboardHistoryData :: "json \<Rightarrow> string list option" where
  "decode_ClipboardHistoryData j =
     (case j of
        JNull \<Rightarrow> Some []
      | JObj kvs \<Rightarrow>
          (case map_of kvs ''history'' of
             None \<Rightarrow> Some []
           | Some JNull \<Rightarrow> Some []
           | Some (JArr js) \<Rightarrow> json_strings js
           | Some _ \<Rightarrow> None)
      | _ \<Rightarrow> None)"

fun json_devices :: "json list \<Rightarrow> (string \<times> string) list option" where
  "json_devices [] = Some []"
| "json_devices (j # js) =
     (case (case j of
              JNull \<Rightarrow> Some ([], [])
            | JObj kvs \<Rightarrow>
                (case (field_string kvs ''id'', field_string kvs ''hostname'') of
                   (Some i, Some h) \<Rightarrow> Some (i, h)
                 | _ \<Rightarrow> None)
            | _ \<Rightarrow> None) of
        None \<Rightarrow> None
      | Some d \<Rightarrow> (case json_devices js of None \<Rightarrow> None | Some ds \<Rightarrow> Some (d # ds)))"

definition decode_DeviceListData :: "json \<Rightarrow> (string \<times> string) list option" where
  "decode_DeviceListData j =
     (case j of
        JNull \<Rightarrow> Some []
      | JObj kvs \<Rightarrow>
          (case map_of kvs ''devices'' of
             None \<Rightarrow> Some []
           | Some JNull \<Rightarrow> Some []
           | Some (JArr js) \<Rightarrow> json_devices js
           | Some _ \<Rightarrow> None)
      | _ \<Rightarrow> None)"

definition RemarshalData_ClipboardHistoryData :: "payload \<Rightarrow> string list option" where
  "RemarshalData_ClipboardHistoryData p = decode_ClipboardHistoryData (marshal p)"

definition RemarshalData_DeviceListData :: "payload \<Rightarrow> (string \<times> string) list option" where
  "RemarshalData_DeviceListData p = decode_DeviceListData (marshal p)"

subsection \<open>\<^verbatim>\<open>Update\<close>\<close>

text \<open>
  The end of \<^verbatim>\<open>Update\<close>, after the switch on the message: the spinner's command is added
  while the state is \<open>Connecting\<close>.
\<close>

definition finish ::
  "Model \<Rightarrow> Cmd list \<Rightarrow> effect list \<Rightarrow> Model \<times> Cmd list \<times> effect list" where
  "finish m cmds effs =
     (m, if connectedState m = Connecting then cmds @ [SpinnerCmd] else cmds, effs)"

text \<open>\<^verbatim>\<open>case tea.KeyMsg\<close>. Every key with a binding returns from \<^verbatim>\<open>Update\<close> at once.\<close>

definition Update_key :: "key \<Rightarrow> Model \<Rightarrow> Model \<times> Cmd list \<times> effect list" where
  "Update_key k m =
     (case k of
        Quit \<Rightarrow>
          (m, [QuitCmd],
           (case wsCtxCancel m of None \<Rightarrow> [] | Some c \<Rightarrow> [CancelCalled c])
           @ (case wsConn m of None \<Rightarrow> [] | Some w \<Rightarrow> [CloseFrameWritten w, ConnClosed w]))
      | ToggleSync \<Rightarrow> (m\<lparr>syncEnabled := \<not> syncEnabled m\<rparr>, [], [])
      | FocusNext \<Rightarrow> (m\<lparr>focus := (focus m + 1) mod 3\<rparr>, [], [])
      | FocusPrev \<Rightarrow> (m\<lparr>focus := (focus m - 1 + 3) mod 3\<rparr>, [], [])
      | AcceptFile \<Rightarrow>
          (case incomingFileOffer m of
             None \<Rightarrow> (m, [], [])
           | Some offer \<Rightarrow>
               (m\<lparr>incomingFileOffer := None\<rparr>,
                [SendWebsocketMessageCmd (wsConn m)
                   \<lparr>Type = ''file_ack'',
                    Data = FileAck \<lparr>AckFilename = Filename offer, Allow = True,
                                    SourceID = offeringClientID m\<rparr>,
                    SenderID = []\<rparr>],
                []))
      | RejectFile \<Rightarrow>
          (case incomingFileOffer m of
             None \<Rightarrow> (m, [], [])
           | Some offer \<Rightarrow>
               (m\<lparr>incomingFileOffer := None\<rparr>,
                [SendWebsocketMessageCmd (wsConn m)
                   \<lparr>Type = ''file_ack'',
                    Data = FileAck \<lparr>AckFilename = Filename offer, Allow = False,
                                    SourceID = offeringClientID m\<rparr>,
                    SenderID = []\<rparr>],
                []))
      | InitiateXfer \<Rightarrow> (m, [], [])
      | OtherKey \<Rightarrow> finish m [ComponentCmd] [])"

text \<open>\<^verbatim>\<open>case ConnectionStatusMsg\<close>.\<close>

definition Update_status ::
  "ConnectionState \<Rightarrow> string option \<Rightarrow> nat option \<Rightarrow> nat option \<Rightarrow> Model \<Rightarrow>
     Model \<times> Cmd list \<times> effect list" where
  "Update_status status err conn cancel m0 =
     (let m = m0\<lparr>connectedState := status, lastError := err\<rparr>
      in case (if status = Connected then conn else None) of
           Some c \<Rightarrow>
             finish (m\<lparr>wsConn := Some c, wsCtxCancel := cancel\<rparr>)
               [ListenWebSocketCmd c, CheckLocalClipboardCmd (lastSentClip m),
                SendWebsocketMessageCmd (Some c)
                  \<lparr>Type = ''request_devices'', Data = Decoded JNull, SenderID = []\<rparr>]
               []
         | None \<Rightarrow>
             finish (m\<lparr>wsCtxCancel := None, wsConn := None\<rparr>) []
               (case wsCtxCancel m of None \<Rightarrow> [] | Some k \<Rightarrow> [CancelCalled k]))"

text \<open>
  \<^verbatim>\<open>case ReceivedServerMsg\<close>. \<open>remove_last\<close> is \<^verbatim>\<open>RemoveItem(len(Items()) - 1)\<close>. A \<open>file_ack\<close> and a
  message of an unknown type are logged and change nothing, as does a payload that does
  not decode.
\<close>

definition remove_last :: "'a list \<Rightarrow> 'a list" where
  "remove_last xs = take (length xs - 1) xs"

definition Update_server :: "BaseMessage \<Rightarrow> Model \<Rightarrow> Model \<times> Cmd list \<times> effect list" where
  "Update_server serverMsg m =
     (if Type serverMsg = ''clipboard_update'' then
        (case RemarshalData_ClipboardUpdateData (Data serverMsg) of
           Some data \<Rightarrow>
             (let items = Content data # histList m
              in finish
                   (m\<lparr>lastRcvdClip := Content data,
                      histList :=
                        (if length items > maxHistorySize then remove_last items else items)\<rparr>)
                   (if syncEnabled m \<and> Content data \<noteq> lastSentClip m
                    then [WriteToClipboardCmd (Content data)] else [])
                   [])
         | None \<Rightarrow> finish m [] [])
      else if Type serverMsg = ''clipboard_history'' then
        (case RemarshalData_ClipboardHistoryData (Data serverMsg) of
           Some newHist \<Rightarrow> finish (m\<lparr>histList := newHist\<rparr>) [] []
         | None \<Rightarrow> finish m [] [])
      else if Type serverMsg = ''device_list'' then
        (case RemarshalData_DeviceListData (Data serverMsg) of
           Some devices \<Rightarrow>
             finish
               (m\<lparr>devicesMap := fold (\<lambda>d. AList.update (fst d) (snd d)) devices [],
                  devList := devices\<rparr>)
               [] []
         | None \<Rightarrow> finish m [] [])
      else if Type serverMsg = ''file_offer'' then
        (case RemarshalData_FileOfferData (Data serverMsg) of
           Some data \<Rightarrow>
             finish (m\<lparr>incomingFileOffer := Some data, offeringClientID := SenderID serverMsg\<rparr>)
               [] []
         | None \<Rightarrow> finish m [] [])
      else finish m [] [])"

text \<open>\<^verbatim>\<open>case LocalClipboardCheckedMsg\<close>.\<close>

definition Update_local ::
  "string \<Rightarrow> bool \<Rightarrow> string option \<Rightarrow> Model \<Rightarrow> Model \<times> Cmd list \<times> effect list" where
  "Update_local content changed err m =
     (if connectedState m \<noteq> Connected then (m, [], [])
      else if err \<noteq> None then (m, [], [])
      else if syncEnabled m \<and> changed \<and> content \<noteq> lastRcvdClip m then
        finish (m\<lparr>lastSentClip := content\<rparr>)
          [SendWebsocketMessageCmd (wsConn m)
             \<lparr>Type = ''clipboard_update'', Data = ClipboardUpdate \<lparr>Content = content\<rparr>,
              SenderID = []\<rparr>,
           TickCheckCmd content]
          []
      else finish m [TickCheckCmd (lastSentClip m)] [])"

definition Update :: "Msg \<Rightarrow> Model \<Rightarrow> Model \<times> Cmd list \<times> effect list" where
  "Update msg m =
     (case msg of
        WindowSizeMsg \<Rightarrow> finish m [] []
      | KeyMsg k \<Rightarrow> Update_key k m
      | SpinnerTickMsg \<Rightarrow>
          finish m (if connectedState m = Connecting then [SpinnerCmd] else []) []
      | ConnectionStatusMsg status err conn cancel \<Rightarrow> Update_status status err conn cancel m
      | ReceivedServerMsg serverMsg \<Rightarrow> Update_server serverMsg m
      | LocalClipboardCheckedMsg content changed err \<Rightarrow> Update_local content changed err m
      | ErrorMsg e \<Rightarrow> finish (m\<lparr>lastError := Some e\<rparr>) [] []
      | LogMsg l \<Rightarrow> finish m [] []
      | OtherMsg \<Rightarrow> finish m [] [])"


section \<open>Predicates of the statements\<close>

text \<open>The client a hub event is about.\<close>

definition event_client :: "hub_event \<Rightarrow> ClientInfo option" where
  "event_client ev =
     (case ev of Register c \<Rightarrow> Some c | Unregister c \<Rightarrow> Some c | Broadcast m \<Rightarrow> None)"

text \<open>
  The registry as a Go map filled by \<open>hub_register\<close>: one entry per key, each client stored
  under its own id.
\<close>

definition registry_ok :: "server_state \<Rightarrow> bool" where
  "registry_ok st =
     (distinct (map fst (clients st)) \<and> list_all (\<lambda>e. ID (snd e) = fst e) (clients st))"

text \<open>The registry holds \<open>c\<close>'s id with \<open>c\<close>'s connection: the test of the unregister case.\<close>

definition holds_conn :: "ClientInfo \<Rightarrow> server_state \<Rightarrow> bool" where
  "holds_conn c st = (map_option Conn (map_of (clients st) (ID c)) = Some (Conn c))"

text \<open>The invariant of the clipboard store.\<close>

definition store_ok :: "server_state \<Rightarrow> bool" where
  "store_ok st =
     ((currentClip st = [] \<and> clipboardHistory st = [] \<or>
       clipboardHistory st \<noteq> [] \<and> hd (clipboardHistory st) = currentClip st) \<and>
      length (clipboardHistory st) \<le> maxHistorySize)"



section \<open>Routing\<close>

lemma deliveries_subset: "set (deliveries message cs) \<subseteq> set cs"
  by (auto simp: deliveries_def)

text \<open>
  A message whose payload is still the generic decoded value enters no case of the hub's
  type switch: unless it is a \<open>clipboard_update\<close>, it is written to every client of the
  snapshot.
\<close>

lemma deliveries_Decoded:
  "Data message = Decoded j \<Longrightarrow> Type message \<noteq> ''clipboard_update'' \<Longrightarrow>
   deliveries message cs = cs"
  by (simp add: deliveries_def skipped_def targetted_def)

text \<open>
  C5. For every registry snapshot and every \<open>clipboard_update\<close> whose \<open>SenderID\<close> is \<open>S\<close>, the hub
  writes the message to no client whose id is \<open>S\<close>, whatever the payload.
\<close>

theorem clipboard_update_never_echoed:
  "Type message = ''clipboard_update'' \<Longrightarrow>
   client \<in> set (deliveries message cs) \<Longrightarrow> ID client \<noteq> SenderID message"
  by (auto simp: deliveries_def skipped_def)

theorem clipboard_update_never_echoed_witness:
  "Type \<lparr>Type = ''clipboard_update'', Data = ClipboardUpdate \<lparr>Content = ''hello''\<rparr>,
         SenderID = ''A''\<rparr> = ''clipboard_update'' \<and>
   \<lparr>ID = ''B'', Conn = 2, Hostname = ''b''\<rparr>
     \<in> set (deliveries
              \<lparr>Type = ''clipboard_update'', Data = ClipboardUpdate \<lparr>Content = ''hello''\<rparr>,
               SenderID = ''A''\<rparr>
              [\<lparr>ID = ''A'', Conn = 1, Hostname = ''a''\<rparr>, \<lparr>ID = ''B'', Conn = 2, Hostname = ''b''\<rparr>]) \<and>
   ID \<lparr>ID = ''B'', Conn = 2, Hostname = ''b''\<rparr> \<noteq>
   SenderID \<lparr>Type = ''clipboard_update'', Data = ClipboardUpdate \<lparr>Content = ''hello''\<rparr>,
             SenderID = ''A''\<rparr>"
proof -
  let ?m = "\<lparr>Type = ''clipboard_update'', Data = ClipboardUpdate \<lparr>Content = ''hello''\<rparr>,
             SenderID = ''A''\<rparr>"
  let ?b = "\<lparr>ID = ''B'', Conn = 2, Hostname = ''b''\<rparr>"
  let ?cs = "[\<lparr>ID = ''A'', Conn = 1, Hostname = ''a''\<rparr>, ?b]"
  have t: "Type ?m = ''clipboard_update''" by simp
  have d: "?b \<in> set (deliveries ?m ?cs)"
    by (simp add: deliveries_def skipped_def targetted_def)
  from clipboard_update_never_echoed [OF t d] t d show ?thesis by blast
qed

text \<open>
  C1. With devices \<open>A\<close>, \<open>B\<close> and \<open>C\<close> registered, \<open>B\<close> sends a \<open>file_ack\<close> whose \<open>sourceId\<close> is \<open>A\<close>.
  \<open>readLoop\<close> decodes the payload to check it and forwards the message as it was read, so
  the hub writes the acknowledgement to all three devices, \<open>B\<close> and \<open>C\<close> included, and not to
  \<open>A\<close> alone.
\<close>

theorem file_ack_reaches_every_client:
  "relay \<lparr>ID = ''B'', Conn = 2, Hostname = ''b''\<rparr>
         \<lparr>Type = ''file_ack'',
          Data = Decoded (JObj [(''filename'', JStr ''x.txt''), (''allow'', JBool True),
                                (''sourceId'', JStr ''A'')]),
          SenderID = []\<rparr>
         \<lparr>clients = [(''A'', \<lparr>ID = ''A'', Conn = 1, Hostname = ''a''\<rparr>),
                     (''B'', \<lparr>ID = ''B'', Conn = 2, Hostname = ''b''\<rparr>),
                     (''C'', \<lparr>ID = ''C'', Conn = 3, Hostname = ''c''\<rparr>)],
          currentClip = [], clipboardHistory = [], closed = []\<rparr>
   = [[\<lparr>ID = ''A'', Conn = 1, Hostname = ''a''\<rparr>, \<lparr>ID = ''B'', Conn = 2, Hostname = ''b''\<rparr>,
       \<lparr>ID = ''C'', Conn = 3, Hostname = ''c''\<rparr>]]"
  by (simp add: relay_def readLoop_text_def RemarshalData_FileAckData_def decode_FileAckData_def
      marshal_def field_string_def field_bool_def deliveries_def skipped_def targetted_def
      activeClients_def)

text \<open>
  C2. With devices \<open>A\<close>, \<open>B\<close> and \<open>C\<close> registered, \<open>A\<close> sends a \<open>file_offer\<close> whose \<open>targetId\<close> is
  \<open>B\<close>. The hub writes the offer to all three devices: to the sender \<open>A\<close> and to the
  bystander \<open>C\<close> as well as to the target.
\<close>

theorem file_offer_reaches_every_client:
  "relay \<lparr>ID = ''A'', Conn = 1, Hostname = ''a''\<rparr>
         \<lparr>Type = ''file_offer'',
          Data = Decoded (JObj [(''filename'', JStr ''x.txt''), (''filesize'', JNum 100),
                                (''targetId'', JStr ''B'')]),
          SenderID = []\<rparr>
         \<lparr>clients = [(''A'', \<lparr>ID = ''A'', Conn = 1, Hostname = ''a''\<rparr>),
                     (''B'', \<lparr>ID = ''B'', Conn = 2, Hostname = ''b''\<rparr>),
                     (''C'', \<lparr>ID = ''C'', Conn = 3, Hostname = ''c''\<rparr>)],
          currentClip = [], clipboardHistory = [], closed = []\<rparr>
   = [[\<lparr>ID = ''A'', Conn = 1, Hostname = ''a''\<rparr>, \<lparr>ID = ''B'', Conn = 2, Hostname = ''b''\<rparr>,
       \<lparr>ID = ''C'', Conn = 3, Hostname = ''c''\<rparr>]]"
  by (simp add: relay_def readLoop_text_def RemarshalData_FileOfferData_def
      decode_FileOfferData_def marshal_def field_string_def field_int64_def deliveries_def
      skipped_def targetted_def activeClients_def)

section \<open>The clipboard store\<close>

lemma store_ok_setIfChanged: "store_ok st \<Longrightarrow> store_ok (fst (setIfChanged x st))"
  by (auto simp: store_ok_def setIfChanged_def Let_def maxHistorySize_def)

lemma store_readLoop_text:
  "fst (readLoop_text c msg st) = st \<or>
   (\<exists>x. fst (readLoop_text c msg st) = fst (setIfChanged x st))"
  by (auto simp: readLoop_text_def Let_def split: option.splits prod.splits) (metis fst_conv)

lemma store_ok_readLoop_text: "store_ok st \<Longrightarrow> store_ok (fst (readLoop_text c msg st))"
  using store_readLoop_text [of c msg st] store_ok_setIfChanged by metis

lemma store_ok_readLoop_run: "store_ok st \<Longrightarrow> store_ok (readLoop_run frames st)"
  by (induction frames arbitrary: st) (simp_all add: store_ok_readLoop_text)

lemma store_ok_init: "store_ok init_server"
  by (simp add: store_ok_def init_server_def)

lemma setIfChanged_history:
  "clipboardHistory (fst (setIfChanged x st)) =
     (if currentClip st = x then clipboardHistory st
      else take maxHistorySize (x # clipboardHistory st))"
  by (simp add: setIfChanged_def Let_def)

lemma take_full_butlast: "length h = n \<Longrightarrow> 0 < n \<Longrightarrow> take n (x # h) = x # butlast h"
  by (cases n) (simp_all add: butlast_conv_take)

text \<open>
  C4. After every sequence of frames read by the server since start-up (each
  \<open>clipboard_update\<close> among them applies one update to the store): if \<open>currentClip\<close> is not empty,
  the history is not empty and its entry 0 is \<open>currentClip\<close>; the history has at most 20
  entries. An update that changes the value puts it in front and keeps the first 20
  entries: on a full history the last, oldest, entry is dropped.
\<close>

theorem clipboard_store_invariant:
  "(currentClip (readLoop_run frames init_server) \<noteq> [] \<longrightarrow>
      clipboardHistory (readLoop_run frames init_server) \<noteq> [] \<and>
      clipboardHistory (readLoop_run frames init_server) ! 0 =
        currentClip (readLoop_run frames init_server)) \<and>
   length (clipboardHistory (readLoop_run frames init_server)) \<le> 20 \<and>
   (currentClip st \<noteq> x \<longrightarrow>
      clipboardHistory (fst (setIfChanged x st)) = take 20 (x # clipboardHistory st)) \<and>
   (currentClip st \<noteq> x \<and> length (clipboardHistory st) = 20 \<longrightarrow>
      clipboardHistory (fst (setIfChanged x st)) = x # butlast (clipboardHistory st))"
proof -
  let ?s = "readLoop_run frames init_server"
  have ok: "store_ok ?s"
    by (rule store_ok_readLoop_run [OF store_ok_init])
  have a: "currentClip ?s \<noteq> [] \<longrightarrow>
      clipboardHistory ?s \<noteq> [] \<and> clipboardHistory ?s ! 0 = currentClip ?s"
    using ok by (auto simp: store_ok_def hd_conv_nth)
  have b: "length (clipboardHistory ?s) \<le> 20"
    using ok by (simp add: store_ok_def maxHistorySize_def)
  have c: "currentClip st \<noteq> x \<longrightarrow>
      clipboardHistory (fst (setIfChanged x st)) = take 20 (x # clipboardHistory st)"
    by (simp add: setIfChanged_history maxHistorySize_def)
  have d: "currentClip st \<noteq> x \<and> length (clipboardHistory st) = 20 \<longrightarrow>
      clipboardHistory (fst (setIfChanged x st)) = x # butlast (clipboardHistory st)"
    using take_full_butlast [of "clipboardHistory st" 20 x]
    by (simp add: setIfChanged_history maxHistorySize_def)
  from a b c d show ?thesis by blast
qed

text \<open>
  C9. Applying the same value twice: the second application reports no change and returns
  the state unchanged; a \<open>clipboard_update\<close> frame that repeats the payload of the frame
  before it, from any client, leaves the state as it is, sends nothing to the \<^verbatim>\<open>broadcast\<close>
  channel and writes nothing.
\<close>

theorem repeated_update_changes_nothing:
  "setIfChanged x (fst (setIfChanged x st)) = (fst (setIfChanged x st), False) \<and>
   readLoop_text c2 \<lparr>Type = ''clipboard_update'', Data = d, SenderID = s2\<rparr>
     (fst (readLoop_text c1 \<lparr>Type = ''clipboard_update'', Data = d, SenderID = s1\<rparr> st))
   = (fst (readLoop_text c1 \<lparr>Type = ''clipboard_update'', Data = d, SenderID = s1\<rparr> st), [], [])"
  by (auto simp add: readLoop_text_def setIfChanged_def Let_def split: option.splits)

text \<open>
  The invariant of C4 after two updates, \<open>a\<close> then \<open>b\<close>, and the eviction on a history of 20
  entries.
\<close>

theorem clipboard_store_invariant_witness:
  "currentClip
     (readLoop_run
        [(\<lparr>ID = ''A'', Conn = 1, Hostname = ''a''\<rparr>,
          \<lparr>Type = ''clipboard_update'', Data = Decoded (JObj [(''content'', JStr ''a'')]),
           SenderID = []\<rparr>),
         (\<lparr>ID = ''A'', Conn = 1, Hostname = ''a''\<rparr>,
          \<lparr>Type = ''clipboard_update'', Data = Decoded (JObj [(''content'', JStr ''b'')]),
           SenderID = []\<rparr>)]
        init_server) = ''b'' \<and>
   clipboardHistory
     (readLoop_run
        [(\<lparr>ID = ''A'', Conn = 1, Hostname = ''a''\<rparr>,
          \<lparr>Type = ''clipboard_update'', Data = Decoded (JObj [(''content'', JStr ''a'')]),
           SenderID = []\<rparr>),
         (\<lparr>ID = ''A'', Conn = 1, Hostname = ''a''\<rparr>,
          \<lparr>Type = ''clipboard_update'', Data = Decoded (JObj [(''content'', JStr ''b'')]),
           SenderID = []\<rparr>)]
        init_server) ! 0 = ''b'' \<and>
   clipboardHistory
     (fst (setIfChanged ''z''
        \<lparr>clients = [], currentClip = ''a'',
         clipboardHistory =
           [''a'', ''b'', ''a'', ''b'', ''a'', ''b'', ''a'', ''b'', ''a'', ''b'',
            ''a'', ''b'', ''a'', ''b'', ''a'', ''b'', ''a'', ''b'', ''a'', ''old''],
         closed = []\<rparr>))
   = [''z'', ''a'', ''b'', ''a'', ''b'', ''a'', ''b'', ''a'', ''b'', ''a'', ''b'',
      ''a'', ''b'', ''a'', ''b'', ''a'', ''b'', ''a'', ''b'', ''a'']"
proof -
  let ?f = "[(\<lparr>ID = ''A'', Conn = 1, Hostname = ''a''\<rparr>,
          \<lparr>Type = ''clipboard_update'', Data = Decoded (JObj [(''content'', JStr ''a'')]),
           SenderID = []\<rparr>),
         (\<lparr>ID = ''A'', Conn = 1, Hostname = ''a''\<rparr>,
          \<lparr>Type = ''clipboard_update'', Data = Decoded (JObj [(''content'', JStr ''b'')]),
           SenderID = []\<rparr>)]"
  let ?st = "\<lparr>clients = [], currentClip = ''a'',
         clipboardHistory =
           [''a'', ''b'', ''a'', ''b'', ''a'', ''b'', ''a'', ''b'', ''a'', ''b'',
            ''a'', ''b'', ''a'', ''b'', ''a'', ''b'', ''a'', ''b'', ''a'', ''old''],
         closed = []\<rparr>"
  have cur: "currentClip (readLoop_run ?f init_server) = ''b''"
    by (simp add: readLoop_text_def RemarshalData_ClipboardUpdateData_def
        decode_ClipboardUpdateData_def marshal_def field_string_def setIfChanged_def
        init_server_def maxHistorySize_def Let_def)
  have pre: "currentClip ?st \<noteq> ''z'' \<and> length (clipboardHistory ?st) = 20"
    by simp
  from clipboard_store_invariant [of ?f ?st "''z''"] cur pre show ?thesis
    by simp
qed

section \<open>The registry\<close>

lemma unregister_not_held: "\<not> holds_conn c st \<Longrightarrow> hub_unregister c st = st"
  by (auto simp: holds_conn_def hub_unregister_def split: option.splits)

lemma unregister_held:
  "holds_conn c st \<Longrightarrow>
   hub_unregister c st =
     st\<lparr>clients := AList.delete (ID c) (clients st), closed := closed st @ [Conn c]\<rparr>"
  by (auto simp: holds_conn_def hub_unregister_def split: option.splits)

lemma not_held_after_unregister: "\<not> holds_conn c (hub_unregister c st)"
proof (cases "holds_conn c st")
  case True
  then show ?thesis
    by (simp add: unregister_held) (simp add: holds_conn_def delete_conv')
next
  case False
  then show ?thesis by (simp add: unregister_not_held)
qed

lemma closes_unregister:
  "count_list (closed (hub_unregister c st)) (Conn c) =
     count_list (closed st) (Conn c) + (if holds_conn c st then 1 else 0)"
  by (cases "holds_conn c st") (simp_all add: unregister_not_held unregister_held)

lemma other_event_keeps:
  assumes "map_option Conn (event_client ev) \<noteq> Some (Conn c)"
    and "\<not> holds_conn c st"
  shows "\<not> holds_conn c (fst (hub_step w ev st))"
    and "count_list (closed (fst (hub_step w ev st))) (Conn c) = count_list (closed st) (Conn c)"
  using assms
  by (auto simp: hub_step_def event_client_def hub_register_def hub_unregister_def
      holds_conn_def update_conv' delete_conv' Let_def
      split: hub_event.splits option.splits if_splits)

lemma other_events_keep:
  "list_all (\<lambda>ev. map_option Conn (event_client ev) \<noteq> Some (Conn c)) evs \<Longrightarrow>
   \<not> holds_conn c st \<Longrightarrow>
   \<not> holds_conn c (hub_run evs st) \<and>
   count_list (closed (hub_run evs st)) (Conn c) = count_list (closed st) (Conn c)"
proof (induction evs arbitrary: st)
  case Nil
  then show ?case by simp
next
  case (Cons ev evs)
  then show ?case using other_event_keeps [of ev c st "\<lambda>c. True"] by auto
qed

text \<open>
  C7. The hub takes \<open>c\<close> from \<^verbatim>\<open>unregister\<close> twice, with any events in between that are not about
  \<open>c\<close>'s connection (the hub takes one event at a time, so two requests made concurrently
  are handled one after the other). The second removal changes nothing, and over the
  whole run \<open>c\<close>'s connection is closed once if the registry held it under \<open>c\<close>'s id, and not
  at all otherwise. With no event in between, the second removal changes nothing either.
\<close>

theorem unregister_twice_closes_once:
  assumes "list_all (\<lambda>ev. map_option Conn (event_client ev) \<noteq> Some (Conn c)) evs"
  shows "hub_unregister c (hub_run evs (hub_unregister c st)) =
           hub_run evs (hub_unregister c st) \<and>
         count_list (closed (hub_unregister c (hub_run evs (hub_unregister c st)))) (Conn c) =
           count_list (closed st) (Conn c) + (if holds_conn c st then 1 else 0) \<and>
         hub_unregister c (hub_unregister c st) = hub_unregister c st"
proof -
  let ?s1 = "hub_unregister c st"
  have k: "\<not> holds_conn c (hub_run evs ?s1) \<and>
           count_list (closed (hub_run evs ?s1)) (Conn c) = count_list (closed ?s1) (Conn c)"
    by (rule other_events_keep [OF assms not_held_after_unregister])
  have a: "hub_unregister c (hub_run evs ?s1) = hub_run evs ?s1"
    using k by (simp add: unregister_not_held)
  have b: "count_list (closed (hub_run evs ?s1)) (Conn c) =
           count_list (closed st) (Conn c) + (if holds_conn c st then 1 else 0)"
    using k closes_unregister [of c st] by simp
  have d: "hub_unregister c ?s1 = ?s1"
    by (rule unregister_not_held [OF not_held_after_unregister])
  from a b d show ?thesis by simp
qed

text \<open>
  \<open>B\<close> is removed twice from a registry of three devices, with a registration and a broadcast
  in between: its connection 2 is closed once.
\<close>

theorem unregister_twice_closes_once_witness:
  "list_all (\<lambda>ev. map_option Conn (event_client ev) \<noteq> Some (Conn \<lparr>ID = ''B'', Conn = 2, Hostname = ''b''\<rparr>))
     [Register \<lparr>ID = ''D'', Conn = 4, Hostname = ''d''\<rparr>,
      Broadcast \<lparr>Type = ''clipboard_update'', Data = ClipboardUpdate \<lparr>Content = ''x''\<rparr>,
                 SenderID = ''A''\<rparr>] \<and>
   closed
     (hub_unregister \<lparr>ID = ''B'', Conn = 2, Hostname = ''b''\<rparr>
        (hub_run
           [Register \<lparr>ID = ''D'', Conn = 4, Hostname = ''d''\<rparr>,
            Broadcast \<lparr>Type = ''clipboard_update'', Data = ClipboardUpdate \<lparr>Content = ''x''\<rparr>,
                       SenderID = ''A''\<rparr>]
           (hub_unregister \<lparr>ID = ''B'', Conn = 2, Hostname = ''b''\<rparr>
              \<lparr>clients = [(''A'', \<lparr>ID = ''A'', Conn = 1, Hostname = ''a''\<rparr>),
                          (''B'', \<lparr>ID = ''B'', Conn = 2, Hostname = ''b''\<rparr>),
                          (''C'', \<lparr>ID = ''C'', Conn = 3, Hostname = ''c''\<rparr>)],
               currentClip = [], clipboardHistory = [], closed = []\<rparr>))) = [2] \<and>
   count_list
     (closed
        (hub_unregister \<lparr>ID = ''B'', Conn = 2, Hostname = ''b''\<rparr>
           (hub_run
              [Register \<lparr>ID = ''D'', Conn = 4, Hostname = ''d''\<rparr>,
               Broadcast \<lparr>Type = ''clipboard_update'', Data = ClipboardUpdate \<lparr>Content = ''x''\<rparr>,
                          SenderID = ''A''\<rparr>]
              (hub_unregister \<lparr>ID = ''B'', Conn = 2, Hostname = ''b''\<rparr>
                 \<lparr>clients = [(''A'', \<lparr>ID = ''A'', Conn = 1, Hostname = ''a''\<rparr>),
                             (''B'', \<lparr>ID = ''B'', Conn = 2, Hostname = ''b''\<rparr>),
                             (''C'', \<lparr>ID = ''C'', Conn = 3, Hostname = ''c''\<rparr>)],
                  currentClip = [], clipboardHistory = [], closed = []\<rparr>)))) 2 = 1"
proof -
  let ?b = "\<lparr>ID = ''B'', Conn = 2, Hostname = ''b''\<rparr>"
  let ?evs = "[Register \<lparr>ID = ''D'', Conn = 4, Hostname = ''d''\<rparr>,
      Broadcast \<lparr>Type = ''clipboard_update'', Data = ClipboardUpdate \<lparr>Content = ''x''\<rparr>,
                 SenderID = ''A''\<rparr>]"
  let ?st = "\<lparr>clients = [(''A'', \<lparr>ID = ''A'', Conn = 1, Hostname = ''a''\<rparr>),
                          (''B'', \<lparr>ID = ''B'', Conn = 2, Hostname = ''b''\<rparr>),
                          (''C'', \<lparr>ID = ''C'', Conn = 3, Hostname = ''c''\<rparr>)],
               currentClip = [], clipboardHistory = [], closed = []\<rparr>"
  have h: "list_all (\<lambda>ev. map_option Conn (event_client ev) \<noteq> Some (Conn ?b)) ?evs"
    by (simp add: event_client_def)
  have s1: "hub_run ?evs (hub_unregister ?b ?st) =
      \<lparr>clients = [(''A'', \<lparr>ID = ''A'', Conn = 1, Hostname = ''a''\<rparr>),
                  (''C'', \<lparr>ID = ''C'', Conn = 3, Hostname = ''c''\<rparr>),
                  (''D'', \<lparr>ID = ''D'', Conn = 4, Hostname = ''d''\<rparr>)],
       currentClip = [], clipboardHistory = [], closed = [2]\<rparr>"
    by (simp add: hub_unregister_def hub_step_def hub_register_def Let_def)
  have held: "holds_conn ?b ?st" by (simp add: holds_conn_def)
  from unregister_twice_closes_once [OF h, of ?st] s1 held h show ?thesis
    by simp
qed

section \<open>Admission\<close>

text \<open>
  C8. When the key matches and the upgrade succeeds, the writes made to the new client
  before its read loop starts (so before any \<open>request_devices\<close> is read) are, in order: a
  \<open>clipboard_update\<close> with the current value if that is not empty, then a \<open>clipboard_history\<close>
  with the whole history if the history is not empty.
\<close>

theorem admission_initial_state:
  "query_Get qkey = key \<Longrightarrow>
   snd (snd (handleConnections key qkey qhost (Some ws) uuid st)) =
     (if currentClip st \<noteq> []
      then [(ws, \<lparr>Type = ''clipboard_update'',
                  Data = ClipboardUpdate \<lparr>Content = currentClip st\<rparr>, SenderID = []\<rparr>)]
      else [])
     @ (if clipboardHistory st \<noteq> []
        then [(ws, \<lparr>Type = ''clipboard_history'',
                    Data = ClipboardHistory (clipboardHistory st), SenderID = []\<rparr>)]
        else [])"
  by (simp add: handleConnections_def hub_register_def Let_def)

text \<open>An admission while the store holds \<open>hello\<close>: two writes, the update first.\<close>

theorem admission_initial_state_witness:
  "query_Get (Some ''k'') = ''k'' \<and>
   snd (snd (handleConnections ''k'' (Some ''k'') (Some ''laptop'') (Some 1) ''id1''
               \<lparr>clients = [], currentClip = ''hello'', clipboardHistory = [''hello'', ''old''],
                closed = []\<rparr>)) =
     [(1, \<lparr>Type = ''clipboard_update'', Data = ClipboardUpdate \<lparr>Content = ''hello''\<rparr>,
           SenderID = []\<rparr>),
      (1, \<lparr>Type = ''clipboard_history'', Data = ClipboardHistory [''hello'', ''old''],
           SenderID = []\<rparr>)]"
proof -
  have k: "query_Get (Some ''k'') = ''k''" by (simp add: query_Get_def)
  from admission_initial_state [OF k, of "Some ''laptop''" 1 "''id1''"
      "\<lparr>clients = [], currentClip = ''hello'', clipboardHistory = [''hello'', ''old''],
        closed = []\<rparr>"] k
  show ?thesis by simp
qed

text \<open>
  A device admitted by a server that has seen no clipboard update: nothing is written to
  it, no \<open>clipboard_history\<close> either.
\<close>

theorem admission_without_history_counterexample:
  "handleConnections ''k'' (Some ''k'') (Some ''laptop'') (Some 1) ''id1'' init_server =
     (Admitted \<lparr>ID = ''id1'', Conn = 1, Hostname = ''laptop''\<rparr>,
      init_server\<lparr>clients := [(''id1'', \<lparr>ID = ''id1'', Conn = 1, Hostname = ''laptop''\<rparr>)]\<rparr>,
      [])"
  by (simp add: handleConnections_def query_Get_def init_server_def hub_register_def Let_def)

lemma in_update: "e \<in> set (AList.update k v al) \<Longrightarrow> e = (k, v) \<or> e \<in> set al"
  by (induction al) (auto split: if_splits)

lemma in_delete: "e \<in> set (AList.delete k al) \<Longrightarrow> e \<in> set al \<and> fst e \<noteq> k"
  by (auto simp: AList.delete_eq)

lemma registry_ok_step: "registry_ok st \<Longrightarrow> registry_ok (fst (hub_step w ev st))"
  by (auto simp: registry_ok_def hub_step_def hub_register_def hub_unregister_def Let_def
      distinct_update distinct_delete list_all_iff
      split: hub_event.splits option.splits dest!: in_update in_delete)

lemma registry_ok_run: "registry_ok st \<Longrightarrow> registry_ok (hub_run evs st)"
  by (induction evs arbitrary: st) (simp_all add: registry_ok_step)

lemma registry_ok_init: "registry_ok init_server"
  by (simp add: registry_ok_def init_server_def)

lemma entry_kept_step:
  "map_option ID (event_client ev) \<noteq> Some k \<Longrightarrow>
   map_of (clients (fst (hub_step w ev st))) k = map_of (clients st) k"
  by (auto simp: hub_step_def event_client_def hub_register_def hub_unregister_def Let_def
      update_conv' delete_conv' split: hub_event.splits option.splits)

lemma entry_kept_run:
  "list_all (\<lambda>ev. map_option ID (event_client ev) \<noteq> Some k) evs \<Longrightarrow>
   map_of (clients (hub_run evs st)) k = map_of (clients st) k"
  by (induction evs arbitrary: st) (simp_all add: entry_kept_step)

lemma deviceList_entry:
  "map_of (clients st) k = Some c \<Longrightarrow> (ID c, Hostname c) \<in> set (deviceList st)"
  by (force simp: deviceList_def activeClients_def dest: map_of_SomeD)

lemma deviceList_unique:
  "registry_ok st \<Longrightarrow> map_of (clients st) k = Some c \<Longrightarrow>
   (k, h) \<in> set (deviceList st) \<Longrightarrow> h = Hostname c"
  by (auto simp: deviceList_def activeClients_def registry_ok_def list_all_iff
      dest: map_of_SomeD eq_key_imp_eq_value)

lemma admitted_entry:
  "query_Get qkey = key \<Longrightarrow>
   handleConnections key qkey qhost (Some ws) uuid st =
     (Admitted \<lparr>ID = uuid, Conn = ws,
                Hostname = (if query_Get qhost = [] then ''Unknown'' else query_Get qhost)\<rparr>,
      hub_register \<lparr>ID = uuid, Conn = ws,
                Hostname = (if query_Get qhost = [] then ''Unknown'' else query_Get qhost)\<rparr> st,
      snd (snd (handleConnections key qkey qhost (Some ws) uuid st)))"
  by (simp add: handleConnections_def Let_def)

text \<open>
  C10. A request with the right key and a hostname parameter that is empty or absent,
  whose upgrade succeeds, is admitted under the hostname \<open>Unknown\<close>. After any later hub
  events that neither register nor unregister this id, the registry holds the device
  with that hostname, and the device list (the payload of every \<open>device_list\<close>) has the
  entry \<open>(id, Unknown)\<close> and no entry for the id with another hostname. \<open>registry_ok\<close> holds
  of every registry the hub builds from the empty one.
\<close>

theorem empty_hostname_admitted_as_Unknown:
  assumes "query_Get qkey = key" and "query_Get qhost = []"
    and "registry_ok st"
    and "list_all (\<lambda>ev. map_option ID (event_client ev) \<noteq> Some uuid) evs"
  shows "fst (handleConnections key qkey qhost (Some ws) uuid st) =
           Admitted \<lparr>ID = uuid, Conn = ws, Hostname = ''Unknown''\<rparr> \<and>
         map_of (clients (hub_run evs
                   (fst (snd (handleConnections key qkey qhost (Some ws) uuid st))))) uuid =
           Some \<lparr>ID = uuid, Conn = ws, Hostname = ''Unknown''\<rparr> \<and>
         (uuid, ''Unknown'') \<in>
           set (deviceList (hub_run evs
                  (fst (snd (handleConnections key qkey qhost (Some ws) uuid st))))) \<and>
         (\<forall>h. (uuid, h) \<in>
                set (deviceList (hub_run evs
                       (fst (snd (handleConnections key qkey qhost (Some ws) uuid st))))) \<longrightarrow>
              h = ''Unknown'')"
proof -
  let ?c = "\<lparr>ID = uuid, Conn = ws, Hostname = ''Unknown''\<rparr>"
  let ?r = "handleConnections key qkey qhost (Some ws) uuid st"
  let ?st = "hub_run evs (fst (snd ?r))"
  have r: "?r = (Admitted ?c, hub_register ?c st, snd (snd ?r))"
    using admitted_entry [OF assms(1), of qhost ws uuid st] assms(2) by simp
  have st1: "fst (snd ?r) = hub_register ?c st" using r by (metis fst_conv snd_conv)
  have ok1: "registry_ok (hub_register ?c st)"
    using registry_ok_step [OF assms(3), of "\<lambda>c. True" "Register ?c"]
    by (simp add: hub_step_def)
  have ok: "registry_ok ?st" unfolding st1 by (rule registry_ok_run [OF ok1])
  have e1: "map_of (clients (hub_register ?c st)) uuid = Some ?c"
    by (simp add: hub_register_def update_conv')
  have e: "map_of (clients ?st) uuid = Some ?c"
    unfolding st1 using entry_kept_run [OF assms(4), of "hub_register ?c st"] e1 by simp
  have a: "fst ?r = Admitted ?c" using r by (metis fst_conv)
  have m: "(uuid, ''Unknown'') \<in> set (deviceList ?st)"
    using deviceList_entry [OF e] by simp
  have u: "\<forall>h. (uuid, h) \<in> set (deviceList ?st) \<longrightarrow> h = ''Unknown''"
    using deviceList_unique [OF ok e] by simp
  from a e m u show ?thesis by blast
qed

text \<open>
  A request without a hostname parameter on a fresh server, followed by the registration
  of a second device: the device list is \<open>[(id1, Unknown), (id2, desk)]\<close>.
\<close>

theorem empty_hostname_admitted_as_Unknown_witness:
  "query_Get (Some ''k'') = ''k'' \<and> query_Get None = [] \<and> registry_ok init_server \<and>
   list_all (\<lambda>ev. map_option ID (event_client ev) \<noteq> Some ''id1'')
     [Register \<lparr>ID = ''id2'', Conn = 2, Hostname = ''desk''\<rparr>] \<and>
   fst (handleConnections ''k'' (Some ''k'') None (Some 1) ''id1'' init_server) =
     Admitted \<lparr>ID = ''id1'', Conn = 1, Hostname = ''Unknown''\<rparr> \<and>
   deviceList (hub_run [Register \<lparr>ID = ''id2'', Conn = 2, Hostname = ''desk''\<rparr>]
                 (fst (snd (handleConnections ''k'' (Some ''k'') None (Some 1) ''id1''
                              init_server)))) =
     [(''id1'', ''Unknown''), (''id2'', ''desk'')] \<and>
   (''id1'', ''Unknown'') \<in>
     set (deviceList (hub_run [Register \<lparr>ID = ''id2'', Conn = 2, Hostname = ''desk''\<rparr>]
                        (fst (snd (handleConnections ''k'' (Some ''k'') None (Some 1) ''id1''
                                     init_server)))))"
proof -
  let ?evs = "[Register \<lparr>ID = ''id2'', Conn = 2, Hostname = ''desk''\<rparr>]"
  have k: "query_Get (Some ''k'') = ''k''" and h: "query_Get None = []"
    by (simp_all add: query_Get_def)
  have e: "list_all (\<lambda>ev. map_option ID (event_client ev) \<noteq> Some ''id1'') ?evs"
    by (simp add: event_client_def)
  have d: "deviceList (hub_run ?evs
             (fst (snd (handleConnections ''k'' (Some ''k'') None (Some 1) ''id1''
                          init_server)))) =
           [(''id1'', ''Unknown''), (''id2'', ''desk'')]"
    by (simp add: handleConnections_def query_Get_def init_server_def hub_register_def
        hub_step_def deviceList_def activeClients_def Let_def)
  from empty_hostname_admitted_as_Unknown [OF k h registry_ok_init e, of 1] k h e d
    registry_ok_init
  show ?thesis by simp
qed

section \<open>The client's \<^verbatim>\<open>Update\<close>\<close>

lemma finish_parts:
  "fst (finish m cmds effs) = m"
  "WriteToClipboardCmd c \<in> set (fst (snd (finish m cmds effs))) \<longleftrightarrow>
   WriteToClipboardCmd c \<in> set cmds"
  by (simp_all add: finish_def)

lemma remove_last_Cons: "xs \<noteq> [] \<Longrightarrow> remove_last (x # xs) = x # butlast xs"
  by (cases xs) (simp_all add: remove_last_def butlast_conv_take)

text \<open>
  C6. For every inbound \<open>clipboard_update\<close> whose payload decodes: the content is put in front
  of the history display (the last item is removed when the list would exceed 20) and
  recorded as the last value received; a write of the content to the OS clipboard is
  scheduled exactly when sync is enabled and the content differs from \<open>lastSentClip\<close>, and
  no other clipboard write is scheduled. So content equal to \<open>lastSentClip\<close> is shown in the
  history and not written, and content that differs is written while sync is enabled.
\<close>

theorem inbound_clipboard_update:
  assumes "Type serverMsg = ''clipboard_update''"
    and "RemarshalData_ClipboardUpdateData (Data serverMsg) = Some data"
  shows "histList (fst (Update (ReceivedServerMsg serverMsg) m)) =
           (if length (histList m) < 20 then Content data # histList m
            else Content data # butlast (histList m)) \<and>
         lastRcvdClip (fst (Update (ReceivedServerMsg serverMsg) m)) = Content data \<and>
         (\<forall>c. WriteToClipboardCmd c \<in> set (fst (snd (Update (ReceivedServerMsg serverMsg) m)))
                \<longleftrightarrow> c = Content data \<and> syncEnabled m \<and> Content data \<noteq> lastSentClip m)"
proof -
  let ?items = "Content data # histList m"
  have u: "Update (ReceivedServerMsg serverMsg) m =
      finish (m\<lparr>lastRcvdClip := Content data,
                histList :=
                  (if length ?items > maxHistorySize then remove_last ?items else ?items)\<rparr>)
        (if syncEnabled m \<and> Content data \<noteq> lastSentClip m
         then [WriteToClipboardCmd (Content data)] else []) []"
    using assms by (simp add: Update_def Update_server_def Let_def)
  have h: "(if length ?items > maxHistorySize then remove_last ?items else ?items) =
           (if length (histList m) < 20 then Content data # histList m
            else Content data # butlast (histList m))"
  proof (cases "length (histList m) < 20")
    case True
    then show ?thesis by (simp add: maxHistorySize_def)
  next
    case False
    then have "histList m \<noteq> []" by auto
    from remove_last_Cons [OF this, of "Content data"] False show ?thesis
      by (simp add: maxHistorySize_def)
  qed
  show ?thesis unfolding u finish_parts using h by auto
qed

text \<open>
  A client that sent \<open>mine\<close> receives \<open>theirs\<close>: the value heads the history and a clipboard
  write of \<open>theirs\<close> is scheduled.
\<close>

theorem inbound_clipboard_update_witness:
  "Type \<lparr>Type = ''clipboard_update'', Data = Decoded (JObj [(''content'', JStr ''theirs'')]),
         SenderID = ''B''\<rparr> = ''clipboard_update'' \<and>
   RemarshalData_ClipboardUpdateData
     (Data \<lparr>Type = ''clipboard_update'', Data = Decoded (JObj [(''content'', JStr ''theirs'')]),
            SenderID = ''B''\<rparr>) = Some \<lparr>Content = ''theirs''\<rparr> \<and>
   histList (fst (Update
     (ReceivedServerMsg
        \<lparr>Type = ''clipboard_update'', Data = Decoded (JObj [(''content'', JStr ''theirs'')]),
         SenderID = ''B''\<rparr>)
     ((NewModel ''ws://server/ws'' ''k'' ''host'')\<lparr>lastSentClip := ''mine''\<rparr>))) = [''theirs''] \<and>
   WriteToClipboardCmd ''theirs'' \<in> set (fst (snd (Update
     (ReceivedServerMsg
        \<lparr>Type = ''clipboard_update'', Data = Decoded (JObj [(''content'', JStr ''theirs'')]),
         SenderID = ''B''\<rparr>)
     ((NewModel ''ws://server/ws'' ''k'' ''host'')\<lparr>lastSentClip := ''mine''\<rparr>))))"
proof -
  let ?msg = "\<lparr>Type = ''clipboard_update'',
               Data = Decoded (JObj [(''content'', JStr ''theirs'')]), SenderID = ''B''\<rparr>"
  let ?m = "(NewModel ''ws://server/ws'' ''k'' ''host'')\<lparr>lastSentClip := ''mine''\<rparr>"
  have t: "Type ?msg = ''clipboard_update''" by simp
  have d: "RemarshalData_ClipboardUpdateData (Data ?msg) = Some \<lparr>Content = ''theirs''\<rparr>"
    by (simp add: RemarshalData_ClipboardUpdateData_def decode_ClipboardUpdateData_def
        marshal_def field_string_def)
  have m: "histList ?m = [] \<and> syncEnabled ?m \<and> lastSentClip ?m = ''mine''"
    by (simp add: NewModel_def)
  from inbound_clipboard_update [OF t d, of ?m] t d m show ?thesis by simp
qed

text \<open>
  The user has switched sync off (key \<open>s\<close>) and nothing was sent yet; an inbound update \<open>x\<close>
  differs from \<open>lastSentClip\<close> and no command is returned: the OS clipboard is not written.
\<close>

theorem inbound_update_sync_disabled_counterexample:
  "syncEnabled (fst (Update (KeyMsg ToggleSync) (NewModel ''ws://server/ws'' ''k'' ''host''))) =
     False \<and>
   lastSentClip (fst (Update (KeyMsg ToggleSync) (NewModel ''ws://server/ws'' ''k'' ''host'')))
     \<noteq> ''x'' \<and>
   fst (snd (Update
     (ReceivedServerMsg \<lparr>Type = ''clipboard_update'',
                         Data = Decoded (JObj [(''content'', JStr ''x'')]), SenderID = []\<rparr>)
     (fst (Update (KeyMsg ToggleSync) (NewModel ''ws://server/ws'' ''k'' ''host''))))) = []"
  by (simp add: Update_def Update_key_def Update_server_def NewModel_def finish_def
      RemarshalData_ClipboardUpdateData_def decode_ClipboardUpdateData_def marshal_def
      field_string_def maxHistorySize_def Let_def)

subsection \<open>Connection faults\<close>









end
